theory Spec2Isabelle
  imports Main
begin

section \<open>Signed tokens (the jsonwebtoken library, symbolically)\<close>

text \<open>
  The controller signs and verifies tokens through \<^verbatim>\<open>jwt.sign\<close>, \<^verbatim>\<open>jwt.verify\<close> and
  \<^verbatim>\<open>jwt.decode\<close>. A token is modelled symbolically: a well-formed token records the
  \<^verbatim>\<open>id\<close> claim of its payload, the key it was signed under and its \<^verbatim>\<open>exp\<close> claim
  (seconds); any other string is \<open>Malformed\<close>. The signature is perfect: a token verifies
  under exactly the key it was signed with.
\<close>

datatype token =
    Malformed string
  | Signed (claim_id: "string option") (signing_key: string) (expires_at: "nat option")

type_synonym payload = "string option"

text \<open>\<^verbatim>\<open>Date.now()\<close> is in milliseconds, the claims of a token are in seconds.\<close>

definition seconds :: "nat \<Rightarrow> nat" where
  "seconds ms = ms div 1000"

text \<open>
  \<^verbatim>\<open>jwt.sign({id}, key, {expiresIn})\<close>. The library throws (\<open>None\<close>) on an empty key and on
  an \<^verbatim>\<open>expiresIn\<close> that is undefined or no time span.
\<close>

definition jwt_sign :: "string \<Rightarrow> string \<Rightarrow> nat option \<Rightarrow> nat \<Rightarrow> token option" where
  "jwt_sign i key expiresIn now_ms =
     (if key = [] then None
      else case expiresIn of
             None \<Rightarrow> None
           | Some ttl \<Rightarrow> Some (Signed (Some i) key (Some (seconds now_ms + ttl))))"

text \<open>\<^verbatim>\<open>jwt.decode(token)\<close>: the payload without any check, \<^verbatim>\<open>null\<close> for a malformed token.\<close>

fun jwt_decode :: "token \<Rightarrow> payload option" where
  "jwt_decode (Malformed s) = None"
| "jwt_decode (Signed c k e) = Some c"

text \<open>
  \<^verbatim>\<open>jwt.verify(token, key)\<close>: the payload, or a throw (\<open>None\<close>) when the token is malformed,
  signed under another key, or expired (\<^verbatim>\<open>now >= exp\<close>).
\<close>

fun jwt_verify :: "token \<Rightarrow> string \<Rightarrow> nat \<Rightarrow> payload option" where
  "jwt_verify (Malformed s) key now_ms = None"
| "jwt_verify (Signed c k e) key now_ms =
     (if key = [] \<or> k \<noteq> key then None
      else case e of
             None \<Rightarrow> Some c
           | Some x \<Rightarrow> if x \<le> seconds now_ms then None else Some c)"

section \<open>Responses\<close>

datatype json =
    JStr string
  | JBool bool
  | JTok token
  | JObj "(string \<times> json) list"
  | JIssues "string list"
  | JError

record cookie =
  cookie_name :: string
  cookie_value :: token
  cookie_expires :: nat
  httpOnly :: bool
  secure :: bool

record response =
  status :: nat
  body :: "(string \<times> json) list"
  cookies :: "cookie list"

definition respond :: "nat \<Rightarrow> (string \<times> json) list \<Rightarrow> response" where
  "respond n kvs = \<lparr>status = n, body = kvs, cookies = []\<rparr>"

section \<open>Configuration, users and the store\<close>

text \<open>
  The module-level constants read from the environment: \<^verbatim>\<open>JWT_SECRET\<close> (the empty string
  when unset), \<^verbatim>\<open>JWT_EXPIRES_IN\<close> as a number of seconds (\<open>None\<close> when unset),
  \<^verbatim>\<open>FRONTEND_URL\<close>, \<^verbatim>\<open>COOKIE_EXPIRES_IN\<close> in days and whether \<^verbatim>\<open>NODE_ENV\<close> is
  \<^verbatim>\<open>production\<close>.
\<close>

record config =
  jwt_secret :: string
  jwt_expiresIn :: "nat option"
  frontend_url :: string
  cookie_expires_in :: nat
  production :: bool

text \<open>
  Modelled from the spec: the \<^verbatim>\<open>User\<close> model of \<^verbatim>\<open>models/user.models\<close> is not part of
  the controller. A user has an id, name, email, password (stored as a one-way hash),
  \<^verbatim>\<open>isEmailVerified\<close>, role, \<^verbatim>\<open>twoFactorEnabled\<close> and an optional
  \<^verbatim>\<open>twoFactorSecret\<close>. The same record is used for a loaded document, where a field
  that the query did not select is \<open>None\<close> (JavaScript \<^verbatim>\<open>undefined\<close>).
\<close>

record user =
  uid :: string
  name :: string
  email :: string
  password :: "string option"
  isEmailVerified :: bool
  role :: string
  twoFactorEnabled :: bool
  twoFactorSecret :: "string option"

record mail =
  mail_to :: string
  mail_subject :: string
  mail_link_base :: string
  mail_link_token :: token

record state =
  users :: "user list"
  outbox :: "mail list"

text \<open>
  Modelled from the spec: the password is never part of a default read and the
  two-factor secret is excluded from default reads; a query returns them only when it
  asks with \<^verbatim>\<open>.select('+password')\<close> or \<^verbatim>\<open>.select('+twoFactorSecret')\<close>, as \<^verbatim>\<open>login\<close>,
  \<^verbatim>\<open>verify2FA\<close> and \<^verbatim>\<open>confirm2FA\<close> do.
\<close>

definition default_read :: "user \<Rightarrow> user" where
  "default_read u = u\<lparr>password := None, twoFactorSecret := None\<rparr>"

definition findById :: "user list \<Rightarrow> string \<Rightarrow> user option" where
  "findById us i = map_option default_read (find (\<lambda>u. uid u = i) us)"

definition findById_select_twoFactorSecret :: "user list \<Rightarrow> string \<Rightarrow> user option" where
  "findById_select_twoFactorSecret us i =
     map_option (\<lambda>u. u\<lparr>password := None\<rparr>) (find (\<lambda>u. uid u = i) us)"

definition findOne_email :: "user list \<Rightarrow> string \<Rightarrow> user option" where
  "findOne_email us e = map_option default_read (find (\<lambda>u. email u = e) us)"

definition findOne_email_select_password :: "user list \<Rightarrow> string \<Rightarrow> user option" where
  "findOne_email_select_password us e =
     map_option (\<lambda>u. u\<lparr>twoFactorSecret := None\<rparr>) (find (\<lambda>u. email u = e) us)"

text \<open>
  \<^verbatim>\<open>user.save()\<close> writes the paths the handler modified to the stored document with the
  same id.
\<close>

fun save :: "string \<Rightarrow> (user \<Rightarrow> user) \<Rightarrow> user list \<Rightarrow> user list" where
  "save i f [] = []"
| "save i f (u # us) = (if uid u = i then f u # us else u # save i f us)"

text \<open>
  What the handlers get from outside the controller: the clock, the TOTP check of
  speakeasy (secret, submitted code; \<open>None\<close> when the library throws), the password
  comparison and hashing of the user model, the id the store gives a new document, the
  secret speakeasy generates for a label (base32 text and otpauth URL), the email test of
  the validation schemas and whether the mail transport accepts a message.
\<close>

record env =
  now :: nat
  totp_verify :: "string \<Rightarrow> string option \<Rightarrow> bool option"
  comparePassword :: "string \<Rightarrow> string \<Rightarrow> bool"
  hashPassword :: "string \<Rightarrow> string"
  newId :: string
  generateSecret :: "string \<Rightarrow> string \<times> string"
  isEmail :: "string \<Rightarrow> bool"
  sendEmail_ok :: bool

text \<open>
  A request: the body and query fields the handlers read (\<open>None\<close> when the field is
  missing or not a string), the \<^verbatim>\<open>Authorization\<close> header split at spaces, the
  \<^verbatim>\<open>jwt\<close> cookie and the \<^verbatim>\<open>req.user\<close> that \<^verbatim>\<open>protect\<close> attaches.
\<close>

record request =
  body_name :: "string option"
  body_email :: "string option"
  body_password :: "string option"
  body_token :: "token option"
  body_tempToken :: "token option"
  body_code :: "string option"
  query_token :: "token option"
  authorization :: "token list option"
  cookie_jwt :: "token option"
  req_user :: "user option"

definition no_request :: request where
  "no_request = \<lparr>body_name = None, body_email = None, body_password = None,
     body_token = None, body_tempToken = None, body_code = None, query_token = None,
     authorization = None, cookie_jwt = None, req_user = None\<rparr>"

section \<open>Validation schemas\<close>

text \<open>Each schema returns the fields that fail; the empty list means \<^verbatim>\<open>parse\<close> succeeds.\<close>

definition z_string_min :: "nat \<Rightarrow> string \<Rightarrow> string option \<Rightarrow> string list" where
  "z_string_min n field v =
     (case v of None \<Rightarrow> [field] | Some s \<Rightarrow> if length s < n then [field] else [])"

definition z_string_email :: "env \<Rightarrow> string \<Rightarrow> string option \<Rightarrow> string list" where
  "z_string_email e field v =
     (case v of None \<Rightarrow> [field] | Some s \<Rightarrow> if isEmail e s then [] else [field])"

definition signupSchema :: "env \<Rightarrow> request \<Rightarrow> string list" where
  "signupSchema e req =
     z_string_min 2 ''name'' (body_name req)
     @ z_string_email e ''email'' (body_email req)
     @ z_string_min 8 ''password'' (body_password req)"

definition loginSchema :: "env \<Rightarrow> request \<Rightarrow> string list" where
  "loginSchema e req =
     z_string_email e ''email'' (body_email req)
     @ z_string_min 8 ''password'' (body_password req)"

definition enable2FASchema :: "request \<Rightarrow> string list" where
  "enable2FASchema req =
     (case body_token req of None \<Rightarrow> [''token''] | Some t \<Rightarrow> [])
     @ (case body_code req of
          None \<Rightarrow> [''code'']
        | Some s \<Rightarrow> if length s = 6 then [] else [''code''])"

section \<open>The handlers\<close>

definition something_went_wrong :: response where
  "something_went_wrong = respond 500 [(''message'', JStr ''Something went wrong'')]"

text \<open>\<^verbatim>\<open>signToken\<close>: the session token, signed with the primary secret.\<close>

definition signToken :: "config \<Rightarrow> env \<Rightarrow> string \<Rightarrow> token option" where
  "signToken cfg e i = jwt_sign i (jwt_secret cfg) (jwt_expiresIn cfg) (now e)"

text \<open>
  Where JavaScript turns a value into text, as in the concatenation
  \<^verbatim>\<open>jwt_secret + user.password\<close>, an undefined value becomes the text \<^verbatim>\<open>undefined\<close>.
\<close>

definition text_of :: "string option \<Rightarrow> string" where
  "text_of v = (case v of None \<Rightarrow> ''undefined'' | Some t \<Rightarrow> t)"

definition js_concat :: "string \<Rightarrow> string option \<Rightarrow> string" where
  "js_concat s v = s @ text_of v"

text \<open>
  Modelled from the spec: \<^verbatim>\<open>User.create\<close> belongs to the user model. The new document
  gets a fresh id, the hashed password, and the defaults unverified, role user and
  two-factor off; the returned document carries every field.
\<close>

definition create_user :: "env \<Rightarrow> string \<Rightarrow> string \<Rightarrow> string \<Rightarrow> user" where
  "create_user e n m p =
     \<lparr>uid = newId e, name = n, email = m, password = Some (hashPassword e p),
      isEmailVerified = False, role = ''user'', twoFactorEnabled = False,
      twoFactorSecret = None\<rparr>"

definition signup :: "config \<Rightarrow> env \<Rightarrow> request \<Rightarrow> state \<Rightarrow> response \<times> state" where
  "signup cfg e req st =
     (if signupSchema e req \<noteq> [] then
        (respond 400 [(''status'', JStr ''failed''), (''message'', JIssues (signupSchema e req))],
         st)
      else case (body_name req, body_email req, body_password req) of
        (Some n, Some m, Some p) \<Rightarrow>
          (case findOne_email (users st) m of
             Some existing \<Rightarrow>
               (respond 400 [(''success'', JBool False),
                             (''message'', JStr ''Email is already registered'')], st)
           | None \<Rightarrow>
               let newUser = create_user e n m p;
                   st1 = st\<lparr>users := users st @ [newUser]\<rparr>
               in (case jwt_sign (uid newUser) (js_concat (jwt_secret cfg) (password newUser))
                          (Some 86400) (now e) of
                     None \<Rightarrow> (something_went_wrong, st1)
                   | Some verificationToken \<Rightarrow>
                       if \<not> sendEmail_ok e then (something_went_wrong, st1)
                       else
                         (respond 201 [(''status'', JStr ''sucess''),
                                       (''message'', JStr ''Verification email sent'')],
                          st1\<lparr>outbox := outbox st1 @
                             [\<lparr>mail_to = email newUser, mail_subject = ''Verify Your Email'',
                               mail_link_base = frontend_url cfg,
                               mail_link_token = verificationToken\<rparr>]\<rparr>)))
      | _ \<Rightarrow> (something_went_wrong, st))"

definition token_invalid_or_expired :: response where
  "token_invalid_or_expired =
     respond 400 [(''status'', JStr ''Failed''),
                  (''message'', JStr ''Token is invalid, or token is expired'')]"

definition verifyEmail :: "config \<Rightarrow> env \<Rightarrow> request \<Rightarrow> state \<Rightarrow> response \<times> state" where
  "verifyEmail cfg e req st =
     (case query_token req of
        None \<Rightarrow> (token_invalid_or_expired, st)
      | Some tok \<Rightarrow>
          (case jwt_decode tok of
             Some (Some i) \<Rightarrow>
               if i = [] then (respond 400 [(''message'', JStr ''Inavlid token'')], st)
               else
                 (case findById (users st) i of
                    None \<Rightarrow> (respond 400 [(''message'', JStr ''User with token not found'')], st)
                  | Some u \<Rightarrow>
                      (case jwt_verify tok (js_concat (jwt_secret cfg) (password u)) (now e) of
                         None \<Rightarrow> (token_invalid_or_expired, st)
                       | Some decoded \<Rightarrow>
                           if isEmailVerified u then
                             (respond 400 [(''message'', JStr ''Email is already verified'')], st)
                           else
                             (respond 200 [(''status'', JStr ''success''),
                                           (''message'', JStr ''Email verified successfully'')],
                              st\<lparr>users := save (uid u) (\<lambda>x. x\<lparr>isEmailVerified := True\<rparr>)
                                              (users st)\<rparr>)))
           | _ \<Rightarrow> (respond 400 [(''message'', JStr ''Inavlid token'')], st)))"

text \<open>The session cookie set by \<^verbatim>\<open>login\<close> and \<^verbatim>\<open>verify2FA\<close>.\<close>

definition session_cookie :: "config \<Rightarrow> env \<Rightarrow> token \<Rightarrow> cookie" where
  "session_cookie cfg e tok =
     \<lparr>cookie_name = ''jwt'', cookie_value = tok,
      cookie_expires = now e + cookie_expires_in cfg * 24 * 60 * 60 * 1000,
      httpOnly = True, secure = production cfg\<rparr>"

definition public_user :: "user \<Rightarrow> json" where
  "public_user u =
     JObj [(''id'', JStr (uid u)), (''name'', JStr (name u)),
           (''email'', JStr (email u)), (''role'', JStr (role u))]"

definition invalid_email_or_password :: response where
  "invalid_email_or_password =
     respond 401 [(''status'', JStr ''failed''),
                  (''message'', JStr ''Invalid email or password'')]"

definition login :: "config \<Rightarrow> env \<Rightarrow> request \<Rightarrow> state \<Rightarrow> response \<times> state" where
  "login cfg e req st =
     (if loginSchema e req \<noteq> [] then
        (respond 400 [(''message'', JStr ''Validation failed''),
                      (''errors'', JIssues (loginSchema e req))], st)
      else case (body_email req, body_password req) of
        (Some m, Some p) \<Rightarrow>
          (case findOne_email_select_password (users st) m of
             None \<Rightarrow> (invalid_email_or_password, st)
           | Some u \<Rightarrow>
               (case password u of
                  None \<Rightarrow> (something_went_wrong, st)
                | Some h \<Rightarrow>
                    if \<not> comparePassword e p h then (invalid_email_or_password, st)
                    else if \<not> isEmailVerified u then
                      (respond 401 [(''message'', JStr ''Please verify your email to login'')], st)
                    else if twoFactorEnabled u then
                      (case jwt_sign (uid u) (jwt_secret cfg) (Some 300) (now e) of
                         None \<Rightarrow> (something_went_wrong, st)
                       | Some tempToken \<Rightarrow>
                           (respond 200 [(''message'', JStr ''2FA required''),
                                         (''tempToken'', JTok tempToken),
                                         (''twoFactorEnabled'', JBool True)], st))
                    else
                      (case signToken cfg e (uid u) of
                         None \<Rightarrow> (something_went_wrong, st)
                       | Some tok \<Rightarrow>
                           (\<lparr>status = 200,
                             body = [(''status'', JStr ''success''),
                                     (''message'', JStr ''Login successfull''),
                                     (''token'', JTok tok),
                                     (''user'', public_user u)],
                             cookies = [session_cookie cfg e tok]\<rparr>, st))))
      | _ \<Rightarrow> (something_went_wrong, st))"

definition setup2FA :: "env \<Rightarrow> request \<Rightarrow> state \<Rightarrow> response \<times> state" where
  "setup2FA e req st =
     (case req_user req of
        None \<Rightarrow> (something_went_wrong, st)
      | Some ru \<Rightarrow>
          (case findById (users st) (uid ru) of
             None \<Rightarrow> (respond 404 [(''message'', JStr ''User not found'')], st)
           | Some u \<Rightarrow>
               if twoFactorEnabled u then
                 (respond 400 [(''message'', JStr ''2FA already enabled'')], st)
               else
                 (case generateSecret e (''ExpenseTracker:'' @ email u) of
                    (base32, otpauth_url) \<Rightarrow>
                      (respond 200 [(''secret'', JStr base32),
                                    (''otpauthURL'', JStr otpauth_url)],
                       st\<lparr>users := save (uid u) (\<lambda>x. x\<lparr>twoFactorSecret := Some base32\<rparr>)
                                       (users st)\<rparr>))))"

definition invalid_or_expired_token :: response where
  "invalid_or_expired_token = respond 401 [(''message'', JStr ''Invalid or expired token'')]"

text \<open>
  \<^verbatim>\<open>!user.twoFactorSecret\<close> holds for an undefined secret and for the empty string.
\<close>

definition falsy :: "string option \<Rightarrow> bool" where
  "falsy v = (case v of None \<Rightarrow> True | Some s \<Rightarrow> s = [])"

definition verify2FA :: "config \<Rightarrow> env \<Rightarrow> request \<Rightarrow> state \<Rightarrow> response \<times> state" where
  "verify2FA cfg e req st =
     (case body_tempToken req of
        None \<Rightarrow> (invalid_or_expired_token, st)
      | Some tempToken \<Rightarrow>
          (case jwt_verify tempToken (jwt_secret cfg) (now e) of
             None \<Rightarrow> (invalid_or_expired_token, st)
           | Some decoded \<Rightarrow>
               (case (case decoded of
                        None \<Rightarrow> None
                      | Some i \<Rightarrow> findById_select_twoFactorSecret (users st) i) of
                  None \<Rightarrow>
                    (respond 400 [(''status'', JStr ''failed''),
                                  (''message'', JStr ''Invalid token'')], st)
                | Some u \<Rightarrow>
                    if falsy (twoFactorSecret u) then
                      (respond 400 [(''status'', JStr ''failed''),
                                    (''message'', JStr ''Invalid token'')], st)
                    else
                      (case totp_verify e (text_of (twoFactorSecret u)) (body_code req) of
                         None \<Rightarrow> (invalid_or_expired_token, st)
                       | Some verified \<Rightarrow>
                           if \<not> verified then
                             (respond 401 [(''message'', JStr ''Invalid 2fA code'')], st)
                           else
                             (case signToken cfg e (uid u) of
                                None \<Rightarrow> (invalid_or_expired_token, st)
                              | Some tok \<Rightarrow>
                                  (\<lparr>status = 200,
                                    body = [(''status'', JStr ''success''),
                                            (''token'', JTok tok),
                                            (''user'', public_user u)],
                                    cookies = [session_cookie cfg e tok]\<rparr>, st))))))"

definition confirm2FA :: "env \<Rightarrow> request \<Rightarrow> state \<Rightarrow> response \<times> state" where
  "confirm2FA e req st =
     (if enable2FASchema req \<noteq> [] then
        (respond 400 [(''message'', JStr ''Validation failed''),
                      (''errors'', JIssues (enable2FASchema req))], st)
      else case req_user req of
        None \<Rightarrow> (something_went_wrong, st)
      | Some ru \<Rightarrow>
          (case findById_select_twoFactorSecret (users st) (uid ru) of
             None \<Rightarrow>
               (respond 404 [(''messaage'', JStr ''User not found or 2FA not setup'')], st)
           | Some u \<Rightarrow>
               if falsy (twoFactorSecret u) then
                 (respond 404 [(''messaage'', JStr ''User not found or 2FA not setup'')], st)
               else
                 (case totp_verify e (text_of (twoFactorSecret u)) (body_code req) of
                    None \<Rightarrow> (something_went_wrong, st)
                  | Some verified \<Rightarrow>
                      if \<not> verified then
                        (respond 401 [(''message'', JStr ''invalid 2FA code'')], st)
                      else
                        (respond 200 [(''message'', JStr ''2FA Enabled successfully'')],
                         st\<lparr>users := save (uid u) (\<lambda>x. x\<lparr>twoFactorEnabled := True\<rparr>)
                                         (users st)\<rparr>))))"

definition disable2FA :: "request \<Rightarrow> state \<Rightarrow> response \<times> state" where
  "disable2FA req st =
     (case req_user req of
        None \<Rightarrow>
          (respond 500 [(''message'', JStr ''Something went wrong''), (''error'', JError)], st)
      | Some ru \<Rightarrow>
          (case findById (users st) (uid ru) of
             None \<Rightarrow> (respond 404 [(''message'', JStr ''User not found'')], st)
           | Some u \<Rightarrow>
               if \<not> twoFactorEnabled u then
                 (respond 400 [(''message'', JStr ''2FA not enabled'')], st)
               else
                 (respond 200 [(''message'', JStr ''2FA disabled successfully'')],
                  st\<lparr>users := save (uid u)
                       (\<lambda>x. x\<lparr>twoFactorEnabled := False, twoFactorSecret := None\<rparr>)
                       (users st)\<rparr>)))"

definition logout :: response where
  "logout =
     \<lparr>status = 200,
      body = [(''status'', JStr ''success''), (''message'', JStr ''Logged out successfully'')],
      cookies = [\<lparr>cookie_name = ''jwt'', cookie_value = Malformed [], cookie_expires = 0,
                  httpOnly = True, secure = False\<rparr>]\<rparr>"

section \<open>The access gate\<close>

text \<open>
  The header counts when it starts with \<^verbatim>\<open>Bearer\<close>; the token is then the second of
  its space-separated parts (undefined when there is none), and the cookie is not
  consulted. A well-formed token never starts with \<^verbatim>\<open>Bearer\<close>.
\<close>

definition startsWith_Bearer :: "token list \<Rightarrow> bool" where
  "startsWith_Bearer parts =
     (case parts of Malformed s # rest \<Rightarrow> take 6 s = ''Bearer'' | _ \<Rightarrow> False)"

definition cookie_token :: "request \<Rightarrow> token option" where
  "cookie_token req =
     (case cookie_jwt req of
        None \<Rightarrow> None
      | Some c \<Rightarrow> if c = Malformed [] then None else Some c)"

definition extract_token :: "request \<Rightarrow> token option" where
  "extract_token req =
     (case authorization req of
        None \<Rightarrow> cookie_token req
      | Some parts \<Rightarrow>
          if startsWith_Bearer parts then
            (case parts of first # second # rest \<Rightarrow> Some second | _ \<Rightarrow> None)
          else cookie_token req)"

definition not_logged_in :: response where
  "not_logged_in =
     respond 401 [(''message'',
       JStr ''You are not logged in!, Please log in to get access'')]"

text \<open>
  \<open>Inl\<close> is the response the gate sends itself; \<open>Inr u\<close> is the call of \<^verbatim>\<open>next()\<close>
  with \<^verbatim>\<open>req.user = u\<close>.
\<close>

definition protect :: "config \<Rightarrow> env \<Rightarrow> request \<Rightarrow> state \<Rightarrow> response + user" where
  "protect cfg e req st =
     (case extract_token req of
        None \<Rightarrow> Inl not_logged_in
      | Some tok \<Rightarrow>
          if tok = Malformed [] then Inl not_logged_in
          else
            (case jwt_verify tok (jwt_secret cfg) (now e) of
               None \<Rightarrow> Inl (respond 401 [(''message'', JStr ''Invalid token'')])
             | Some decoded \<Rightarrow>
                 (case (case decoded of None \<Rightarrow> None | Some i \<Rightarrow> findById (users st) i) of
                    None \<Rightarrow> Inl (respond 401 [(''message'', JStr ''User does no longer exist'')])
                  | Some currentUser \<Rightarrow> Inr currentUser)))"

definition restrictTo :: "string list \<Rightarrow> user \<Rightarrow> response option" where
  "restrictTo roles ru =
     (if role ru \<notin> set roles then
        Some (respond 403 [(''message'',
                JStr ''You do not have permission to perform this action'')])
      else None)"

section \<open>Predicates on results and stores\<close>

text \<open>A result of the gate that is a 401 response, without a call of \<^verbatim>\<open>next()\<close>.\<close>

definition rejected_401 :: "response + user \<Rightarrow> bool" where
  "rejected_401 r = (case r of Inl res \<Rightarrow> status res = 401 | Inr u \<Rightarrow> False)"

text \<open>
  The data-model invariant: a stored user with \<^verbatim>\<open>twoFactorEnabled\<close> has a
  \<^verbatim>\<open>twoFactorSecret\<close>.
\<close>

definition twoFactor_invariant :: "state \<Rightarrow> bool" where
  "twoFactor_invariant st =
     (\<forall>u \<in> set (users st). twoFactorEnabled u \<longrightarrow> twoFactorSecret u \<noteq> None)"

section \<open>Example data\<close>

text \<open>A configured server, a deterministic environment and a small store, used to run the handlers.\<close>

definition demo_cfg :: config where
  "demo_cfg = \<lparr>jwt_secret = ''s3cret'', jwt_expiresIn = Some 7776000,
     frontend_url = ''http://localhost:3000'', cookie_expires_in = 90, production = False\<rparr>"

definition demo_env :: env where
  "demo_env = \<lparr>now = 5000, totp_verify = (\<lambda>s c. Some (c = Some ''123456'')),
     comparePassword = (\<lambda>p h. h = CHR ''#'' # p), hashPassword = (\<lambda>p. CHR ''#'' # p),
     newId = ''u1'', generateSecret = (\<lambda>l. (''JBSWY3DPEHPK3PXP'', ''otpauth://totp/'' @ l)),
     isEmail = (\<lambda>s. CHR ''@'' \<in> set s), sendEmail_ok = True\<rparr>"

definition ann_request :: request where
  "ann_request = no_request\<lparr>body_name := Some ''Ann'', body_email := Some ''a@x.com'',
     body_password := Some ''longpass1''\<rparr>"

definition ann :: user where
  "ann = \<lparr>uid = ''u1'', name = ''Ann'', email = ''a@x.com'', password = Some ''#longpass1'',
     isEmailVerified = True, role = ''user'', twoFactorEnabled = True,
     twoFactorSecret = Some ''JBSWY3DPEHPK3PXP''\<rparr>"

definition ann_state :: state where
  "ann_state = \<lparr>users = [ann], outbox = []\<rparr>"

text \<open>Ann with a secret stored by \<^verbatim>\<open>setup2FA\<close> and not yet confirmed.\<close>

definition pending :: user where
  "pending = ann\<lparr>twoFactorEnabled := False\<rparr>"

definition pending_state :: state where
  "pending_state = \<lparr>users = [pending], outbox = []\<rparr>"

definition confirm_request :: request where
  "confirm_request = no_request\<lparr>body_token := Some (Malformed ''x''),
     body_code := Some ''123456'', req_user := Some (default_read pending)\<rparr>"

text \<open>Ann before \<^verbatim>\<open>setup2FA\<close>: no secret, two-factor off.\<close>

definition fresh_state :: state where
  "fresh_state = \<lparr>users = [pending\<lparr>twoFactorSecret := None\<rparr>], outbox = []\<rparr>"

section \<open>Properties\<close>

lemmas demo_defs = demo_cfg_def demo_env_def ann_request_def ann_def ann_state_def no_request_def

subsection \<open>The store\<close>

lemma find_save:
  "(\<And>u. uid (f u) = uid u) \<Longrightarrow>
   find (\<lambda>u. uid u = j) (save i f us) =
     (if j = i then map_option f (find (\<lambda>u. uid u = i) us) else find (\<lambda>u. uid u = j) us)"
  by (induction us) auto

subsection \<open>Login\<close>

lemma loginSchema_ok:
  "loginSchema e req = [] \<Longrightarrow>
   \<exists>m p. body_email req = Some m \<and> body_password req = Some p \<and> isEmail e m \<and> 8 \<le> length p"
  by (auto simp: loginSchema_def z_string_email_def z_string_min_def split: option.splits if_splits)

text \<open>
  C5. Two login requests that both pass the schema, one naming an email no stored user
  has and one naming a stored user with a password the comparison rejects, get the same
  response: status 401 with the body \<^verbatim>\<open>Invalid email or password\<close>; the store is
  untouched.
\<close>

theorem login_no_account_enumeration:
  assumes "loginSchema e req1 = []" and "loginSchema e req2 = []"
    and "body_email req1 = Some m1" and "find (\<lambda>u. email u = m1) (users st) = None"
    and "body_email req2 = Some m2" and "body_password req2 = Some p2"
    and "find (\<lambda>u. email u = m2) (users st) = Some u" and "password u = Some h"
    and "\<not> comparePassword e p2 h"
  shows "fst (login cfg e req1 st) = fst (login cfg e req2 st)
       \<and> login cfg e req1 st = (invalid_email_or_password, st)
       \<and> login cfg e req2 st = (invalid_email_or_password, st)
       \<and> status invalid_email_or_password = 401"
proof -
  from assms(1) obtain p1 where p1: "body_password req1 = Some p1"
    using loginSchema_ok by blast
  have r1: "login cfg e req1 st = (invalid_email_or_password, st)"
    using assms(1,3,4) p1 by (simp add: login_def findOne_email_select_password_def)
  have r2: "login cfg e req2 st = (invalid_email_or_password, st)"
    using assms(2,5-9) by (simp add: login_def findOne_email_select_password_def)
  show ?thesis using r1 r2 by (simp add: invalid_email_or_password_def respond_def)
qed

theorem login_no_account_enumeration_witness:
  "fst (login demo_cfg demo_env (ann_request\<lparr>body_email := Some ''nobody@x.com''\<rparr>) ann_state)
     = fst (login demo_cfg demo_env (ann_request\<lparr>body_password := Some ''wrongpass''\<rparr>) ann_state)
   \<and> login demo_cfg demo_env (ann_request\<lparr>body_email := Some ''nobody@x.com''\<rparr>) ann_state
       = (invalid_email_or_password, ann_state)
   \<and> status invalid_email_or_password = 401"
  using login_no_account_enumeration [of demo_env "ann_request\<lparr>body_email := Some ''nobody@x.com''\<rparr>"
      "ann_request\<lparr>body_password := Some ''wrongpass''\<rparr>" "''nobody@x.com''" ann_state
      "''a@x.com''" "''wrongpass''" ann "''#longpass1''" demo_cfg]
  by (simp add: demo_defs loginSchema_def z_string_email_def z_string_min_def)

text \<open>
  C2. A user with two-factor enabled who logs in with a password the comparison accepts
  and a verified email gets no cookie and no \<^verbatim>\<open>token\<close> field, and the store is
  unchanged; with a signing secret configured the response is 200 with the message, the
  step-up token for the user (expiring 300 seconds after the login) and the flag
  \<^verbatim>\<open>twoFactorEnabled: true\<close>.
\<close>

theorem login_twoFactor_no_session:
  assumes "loginSchema e req = []"
    and "body_email req = Some m" and "body_password req = Some p"
    and "find (\<lambda>u. email u = m) (users st) = Some u" and "password u = Some h"
    and "comparePassword e p h" and "isEmailVerified u" and "twoFactorEnabled u"
  shows "cookies (fst (login cfg e req st)) = []
       \<and> map_of (body (fst (login cfg e req st))) ''token'' = None
       \<and> snd (login cfg e req st) = st
       \<and> (jwt_secret cfg \<noteq> [] \<longrightarrow>
            fst (login cfg e req st) =
              respond 200 [(''message'', JStr ''2FA required''),
                (''tempToken'', JTok (Signed (Some (uid u)) (jwt_secret cfg)
                                        (Some (seconds (now e) + 300)))),
                (''twoFactorEnabled'', JBool True)])"
  using assms
  by (simp add: login_def findOne_email_select_password_def jwt_sign_def respond_def
      something_went_wrong_def)

theorem login_twoFactor_no_session_witness:
  "cookies (fst (login demo_cfg demo_env ann_request ann_state)) = []
   \<and> fst (login demo_cfg demo_env ann_request ann_state) =
       respond 200 [(''message'', JStr ''2FA required''),
         (''tempToken'', JTok (Signed (Some ''u1'') ''s3cret'' (Some 305))),
         (''twoFactorEnabled'', JBool True)]"
  using login_twoFactor_no_session [of demo_env ann_request "''a@x.com''" "''longpass1''"
      ann_state ann "''#longpass1''" demo_cfg]
  by (simp add: demo_defs loginSchema_def z_string_email_def z_string_min_def seconds_def
      respond_def)

subsection \<open>Email verification\<close>

text \<open>
  C1. A verification token signed with the primary secret followed by the hash \<open>h1\<close>
  stored at issue time is rejected once the store holds another hash \<open>h2\<close> for that
  user: \<^verbatim>\<open>verifyEmail\<close> answers 400 \<^verbatim>\<open>Token is invalid, or token is expired\<close> (for an
  empty id claim, 400 \<^verbatim>\<open>Inavlid token\<close>) and leaves the store, hence
  \<^verbatim>\<open>isEmailVerified\<close>, as it was. A stored hash is never the text \<^verbatim>\<open>undefined\<close>.
\<close>

theorem verifyEmail_stale_hash_rejected:
  assumes issued: "jwt_sign i (js_concat (jwt_secret cfg) (Some h1)) (Some 86400) t0 = Some tok"
    and stored: "find (\<lambda>u. uid u = i) (users st) = Some u" "password u = Some h2"
    and changed: "h1 \<noteq> h2"
    and hash: "h1 \<noteq> ''undefined''"
    and req: "query_token req = Some tok"
  shows "verifyEmail cfg e req st =
           (if i = [] then respond 400 [(''message'', JStr ''Inavlid token'')]
            else token_invalid_or_expired, st)"
proof -
  have tok: "tok = Signed (Some i) (jwt_secret cfg @ h1) (Some (seconds t0 + 86400))"
    using issued by (simp add: jwt_sign_def js_concat_def text_of_def split: if_splits)
  have key: "jwt_secret cfg @ h1 \<noteq> js_concat (jwt_secret cfg) (password (default_read u))"
    using hash by (simp add: js_concat_def text_of_def default_read_def)
  show ?thesis
    using stored(1) req key by (simp add: verifyEmail_def tok findById_def)
qed

theorem verifyEmail_stale_hash_rejected_witness:
  "verifyEmail demo_cfg demo_env
     (no_request\<lparr>query_token := Some (Signed (Some ''u1'') ''s3cret#oldpass99'' (Some 86400))\<rparr>)
     (ann_state\<lparr>users := [ann\<lparr>isEmailVerified := False\<rparr>]\<rparr>)
   = (token_invalid_or_expired, ann_state\<lparr>users := [ann\<lparr>isEmailVerified := False\<rparr>]\<rparr>)"
  using verifyEmail_stale_hash_rejected [of "''u1''" demo_cfg "''#oldpass99''" 0
      "Signed (Some ''u1'') ''s3cret#oldpass99'' (Some 86400)"
      "ann_state\<lparr>users := [ann\<lparr>isEmailVerified := False\<rparr>]\<rparr>"
      "ann\<lparr>isEmailVerified := False\<rparr>" "''#longpass1''"
      "no_request\<lparr>query_token := Some (Signed (Some ''u1'') ''s3cret#oldpass99'' (Some 86400))\<rparr>"
      demo_env]
  by (simp add: demo_defs jwt_sign_def js_concat_def text_of_def seconds_def)

text \<open>
  \<^verbatim>\<open>verifyEmail\<close> loads the user with a default read, so the key it verifies against is
  the secret followed by \<^verbatim>\<open>undefined\<close>, whatever hash is stored: it answers 200 only to
  a token signed under that key.
\<close>

lemma verifyEmail_accepts_only_undefined_key:
  assumes "status (fst (verifyEmail cfg e req st)) = 200"
  shows "\<exists>c ex. query_token req = Some (Signed c (jwt_secret cfg @ ''undefined'') ex)"
proof (cases "query_token req")
  case None
  with assms show ?thesis
    by (simp add: verifyEmail_def token_invalid_or_expired_def respond_def)
next
  case (Some tok)
  show ?thesis
  proof (cases tok)
    case (Malformed s)
    with Some assms show ?thesis by (simp add: verifyEmail_def respond_def)
  next
    case (Signed c k ex)
    with Some assms have "k = jwt_secret cfg @ ''undefined''"
      by (auto simp: verifyEmail_def token_invalid_or_expired_def respond_def findById_def
          default_read_def js_concat_def text_of_def split: option.splits if_splits)
    with Some Signed show ?thesis by simp
  qed
qed

text \<open>
  C6. Ann signs up on an empty store and follows the emailed link. The token was signed
  with the secret followed by her stored hash; \<^verbatim>\<open>verifyEmail\<close> reads her document
  without the password and verifies against the secret followed by \<^verbatim>\<open>undefined\<close>, so
  the first use of the token already fails with 400
  \<^verbatim>\<open>Token is invalid, or token is expired\<close> and she stays unverified.
\<close>

theorem verifyEmail_rejects_signup_token:
  "signup demo_cfg demo_env ann_request \<lparr>users = [], outbox = []\<rparr> =
     (respond 201 [(''status'', JStr ''sucess''), (''message'', JStr ''Verification email sent'')],
      \<lparr>users = [ann\<lparr>isEmailVerified := False, twoFactorEnabled := False, twoFactorSecret := None\<rparr>],
       outbox = [\<lparr>mail_to = ''a@x.com'', mail_subject = ''Verify Your Email'',
                  mail_link_base = ''http://localhost:3000'',
                  mail_link_token = Signed (Some ''u1'') ''s3cret#longpass1'' (Some 86405)\<rparr>]\<rparr>)
   \<and> verifyEmail demo_cfg demo_env
        (no_request\<lparr>query_token := Some (Signed (Some ''u1'') ''s3cret#longpass1'' (Some 86405))\<rparr>)
        (snd (signup demo_cfg demo_env ann_request \<lparr>users = [], outbox = []\<rparr>))
     = (token_invalid_or_expired, snd (signup demo_cfg demo_env ann_request \<lparr>users = [], outbox = []\<rparr>))"
  by (simp add: demo_defs signup_def signupSchema_def z_string_email_def z_string_min_def
      findOne_email_def create_user_def jwt_sign_def js_concat_def text_of_def seconds_def
      verifyEmail_def findById_def default_read_def Let_def)

subsection \<open>The access gate\<close>

text \<open>
  C8. The gate answers 401 itself, and does not call \<^verbatim>\<open>next()\<close>, for a request with
  neither header nor cookie (and whenever no token can be extracted), for an expired
  token, for a token signed under another key, for a token that does not parse, and for
  a token that verifies but names a user the store no longer has.
\<close>

theorem protect_rejects:
  "(authorization req = None \<and> cookie_jwt req = None \<longrightarrow>
      protect cfg e req st = Inl not_logged_in)
   \<and> (extract_token req = None \<longrightarrow> protect cfg e req st = Inl not_logged_in)
   \<and> (extract_token req = Some (Signed c k (Some x)) \<and> x \<le> seconds (now e) \<longrightarrow>
        protect cfg e req st = Inl (respond 401 [(''message'', JStr ''Invalid token'')]))
   \<and> (extract_token req = Some (Signed c k ex) \<and> k \<noteq> jwt_secret cfg \<longrightarrow>
        protect cfg e req st = Inl (respond 401 [(''message'', JStr ''Invalid token'')]))
   \<and> (extract_token req = Some (Malformed s) \<longrightarrow> rejected_401 (protect cfg e req st))
   \<and> (extract_token req = Some tok \<and> jwt_verify tok (jwt_secret cfg) (now e) = Some (Some i)
        \<and> find (\<lambda>u. uid u = i) (users st) = None \<longrightarrow>
        protect cfg e req st = Inl (respond 401 [(''message'', JStr ''User does no longer exist'')]))
   \<and> rejected_401 (Inl not_logged_in)
   \<and> rejected_401 (Inl (respond 401 [(''message'', JStr ''Invalid token'')]))
   \<and> rejected_401 (Inl (respond 401 [(''message'', JStr ''User does no longer exist'')]))"
proof -
  have none: "authorization req = None \<and> cookie_jwt req = None \<longrightarrow>
      protect cfg e req st = Inl not_logged_in"
    by (simp add: protect_def extract_token_def cookie_token_def)
  have absent: "extract_token req = None \<longrightarrow> protect cfg e req st = Inl not_logged_in"
    by (simp add: protect_def)
  have expired: "extract_token req = Some (Signed c k (Some x)) \<and> x \<le> seconds (now e) \<longrightarrow>
        protect cfg e req st = Inl (respond 401 [(''message'', JStr ''Invalid token'')])"
    by (simp add: protect_def)
  have key: "extract_token req = Some (Signed c k ex) \<and> k \<noteq> jwt_secret cfg \<longrightarrow>
        protect cfg e req st = Inl (respond 401 [(''message'', JStr ''Invalid token'')])"
    by (simp add: protect_def)
  have garbled: "extract_token req = Some (Malformed s) \<longrightarrow> rejected_401 (protect cfg e req st)"
    by (simp add: protect_def rejected_401_def not_logged_in_def respond_def)
  have gone: "extract_token req = Some tok \<and> jwt_verify tok (jwt_secret cfg) (now e) = Some (Some i)
        \<and> find (\<lambda>u. uid u = i) (users st) = None \<longrightarrow>
        protect cfg e req st = Inl (respond 401 [(''message'', JStr ''User does no longer exist'')])"
    by (cases tok) (auto simp: protect_def findById_def)
  show ?thesis using none absent expired key garbled gone
    by (simp add: rejected_401_def not_logged_in_def respond_def)
qed

theorem protect_rejects_witness:
  "protect demo_cfg demo_env no_request ann_state = Inl not_logged_in
   \<and> protect demo_cfg demo_env
       (no_request\<lparr>authorization := Some [Malformed ''Bearer'', Signed (Some ''u1'') ''s3cret'' (Some 5)]\<rparr>)
       ann_state = Inl (respond 401 [(''message'', JStr ''Invalid token'')])
   \<and> protect demo_cfg demo_env
       (no_request\<lparr>cookie_jwt := Some (Signed (Some ''u1'') ''guess'' (Some 500))\<rparr>)
       ann_state = Inl (respond 401 [(''message'', JStr ''Invalid token'')])
   \<and> rejected_401 (protect demo_cfg demo_env
       (no_request\<lparr>cookie_jwt := Some (Malformed ''abc.def.ghi'')\<rparr>) ann_state)
   \<and> protect demo_cfg demo_env
       (no_request\<lparr>authorization := Some [Malformed ''Bearer'', Signed (Some ''u2'') ''s3cret'' (Some 500)]\<rparr>)
       ann_state = Inl (respond 401 [(''message'', JStr ''User does no longer exist'')])"
  using protect_rejects [where req = no_request and cfg = demo_cfg and e = demo_env
       and st = ann_state]
    protect_rejects [where req = "no_request\<lparr>authorization :=
         Some [Malformed ''Bearer'', Signed (Some ''u1'') ''s3cret'' (Some 5)]\<rparr>"
       and cfg = demo_cfg and e = demo_env and st = ann_state
       and c = "Some ''u1''" and k = "''s3cret''" and x = 5]
    protect_rejects [where req = "no_request\<lparr>cookie_jwt :=
         Some (Signed (Some ''u1'') ''guess'' (Some 500))\<rparr>"
       and cfg = demo_cfg and e = demo_env and st = ann_state
       and c = "Some ''u1''" and k = "''guess''" and ex = "Some 500"]
    protect_rejects [where req = "no_request\<lparr>cookie_jwt := Some (Malformed ''abc.def.ghi'')\<rparr>"
       and cfg = demo_cfg and e = demo_env and st = ann_state and s = "''abc.def.ghi''"]
    protect_rejects [where req = "no_request\<lparr>authorization :=
         Some [Malformed ''Bearer'', Signed (Some ''u2'') ''s3cret'' (Some 500)]\<rparr>"
       and cfg = demo_cfg and e = demo_env and st = ann_state
       and tok = "Signed (Some ''u2'') ''s3cret'' (Some 500)" and i = "''u2''"]
  by (simp add: demo_defs extract_token_def cookie_token_def startsWith_Bearer_def seconds_def)

subsection \<open>Two-factor authentication\<close>

text \<open>
  C10. \<^verbatim>\<open>verify2FA\<close> looks only at the stored secret. For a user whose secret is stored
  but not confirmed (\<^verbatim>\<open>twoFactorEnabled\<close> false), a token that verifies under the primary
  secret and a code the TOTP check accepts give 200 with a session token in the body
  and in the \<^verbatim>\<open>jwt\<close> cookie, when the session lifetime is configured.
\<close>

theorem verify2FA_ignores_twoFactorEnabled:
  assumes "find (\<lambda>u. uid u = i) (users st) = Some u"
    and "\<not> twoFactorEnabled u" and "twoFactorSecret u = Some s" and "s \<noteq> []"
    and "body_tempToken req = Some tok"
    and "jwt_verify tok (jwt_secret cfg) (now e) = Some (Some i)"
    and "totp_verify e s (body_code req) = Some True"
    and "jwt_expiresIn cfg = Some ttl"
  shows "verify2FA cfg e req st =
           (\<lparr>status = 200,
             body = [(''status'', JStr ''success''),
                     (''token'', JTok (Signed (Some i) (jwt_secret cfg)
                                        (Some (seconds (now e) + ttl)))),
                     (''user'', public_user (u\<lparr>password := None\<rparr>))],
             cookies = [session_cookie cfg e
                          (Signed (Some i) (jwt_secret cfg) (Some (seconds (now e) + ttl)))]\<rparr>,
            st)"
proof -
  have secret: "jwt_secret cfg \<noteq> []"
    using assms(6) by (cases tok) (auto split: if_splits)
  have id: "uid u = i"
    using assms(1) by (auto dest: find_Some_iff[THEN iffD1])
  show ?thesis
    using assms secret id
    by (simp add: verify2FA_def findById_select_twoFactorSecret_def falsy_def text_of_def
        signToken_def jwt_sign_def)
qed

theorem verify2FA_ignores_twoFactorEnabled_witness:
  "verify2FA demo_cfg demo_env
     (no_request\<lparr>body_tempToken := Some (Signed (Some ''u1'') ''s3cret'' (Some 500)),
                 body_code := Some ''123456''\<rparr>)
     (ann_state\<lparr>users := [ann\<lparr>twoFactorEnabled := False\<rparr>]\<rparr>)
   = (\<lparr>status = 200,
       body = [(''status'', JStr ''success''),
               (''token'', JTok (Signed (Some ''u1'') ''s3cret'' (Some 7776005))),
               (''user'', JObj [(''id'', JStr ''u1''), (''name'', JStr ''Ann''),
                               (''email'', JStr ''a@x.com''), (''role'', JStr ''user'')])],
       cookies = [\<lparr>cookie_name = ''jwt'',
                    cookie_value = Signed (Some ''u1'') ''s3cret'' (Some 7776005),
                    cookie_expires = 7776005000, httpOnly = True, secure = False\<rparr>]\<rparr>,
      ann_state\<lparr>users := [ann\<lparr>twoFactorEnabled := False\<rparr>]\<rparr>)"
  using verify2FA_ignores_twoFactorEnabled [of "''u1''"
      "ann_state\<lparr>users := [ann\<lparr>twoFactorEnabled := False\<rparr>]\<rparr>"
      "ann\<lparr>twoFactorEnabled := False\<rparr>" "''JBSWY3DPEHPK3PXP''"
      "no_request\<lparr>body_tempToken := Some (Signed (Some ''u1'') ''s3cret'' (Some 500)),
                  body_code := Some ''123456''\<rparr>"
      "Signed (Some ''u1'') ''s3cret'' (Some 500)" demo_cfg demo_env 7776000]
  by (simp add: demo_defs seconds_def public_user_def session_cookie_def)

text \<open>
  C3. The step-up token that \<^verbatim>\<open>login\<close> signs and the session token that \<^verbatim>\<open>signToken\<close>
  signs for the same user at the same time carry the same id claim under the same key and
  differ only in their expiry. Before it expires the step-up token passes the gate, which
  calls \<^verbatim>\<open>next()\<close> with the user; before both expire \<^verbatim>\<open>verify2FA\<close> treats the session
  token exactly as it treats the step-up token, and with a stored secret and an accepted
  code it answers 200 to a session token presented as \<^verbatim>\<open>tempToken\<close>.
\<close>

theorem stepup_and_session_interchangeable:
  assumes secret: "jwt_secret cfg \<noteq> []" and ttl: "jwt_expiresIn cfg = Some ttl"
    and stored: "find (\<lambda>u. uid u = i) (users st) = Some u"
    and issued: "now e0 = t0"
  shows "jwt_sign i (jwt_secret cfg) (Some 300) t0
           = Some (Signed (Some i) (jwt_secret cfg) (Some (seconds t0 + 300)))
       \<and> signToken cfg e0 i = Some (Signed (Some i) (jwt_secret cfg) (Some (seconds t0 + ttl)))
       \<and> (seconds (now e) < seconds t0 + 300
            \<and> extract_token req = Some (Signed (Some i) (jwt_secret cfg) (Some (seconds t0 + 300)))
            \<longrightarrow> protect cfg e req st = Inr (default_read u))
       \<and> (seconds (now e) < seconds t0 + ttl \<and> seconds (now e) < seconds t0 + 300 \<longrightarrow>
            verify2FA cfg e
              (req\<lparr>body_tempToken := Some (Signed (Some i) (jwt_secret cfg) (Some (seconds t0 + ttl)))\<rparr>) st
            = verify2FA cfg e
              (req\<lparr>body_tempToken := Some (Signed (Some i) (jwt_secret cfg) (Some (seconds t0 + 300)))\<rparr>) st)
       \<and> (seconds (now e) < seconds t0 + ttl \<and> twoFactorSecret u = Some s \<and> s \<noteq> []
            \<and> totp_verify e s (body_code req) = Some True \<longrightarrow>
            status (fst (verify2FA cfg e
              (req\<lparr>body_tempToken := Some (Signed (Some i) (jwt_secret cfg) (Some (seconds t0 + ttl)))\<rparr>)
              st)) = 200)"
proof -
  have stepup: "jwt_sign i (jwt_secret cfg) (Some 300) t0
           = Some (Signed (Some i) (jwt_secret cfg) (Some (seconds t0 + 300)))"
    using secret by (simp add: jwt_sign_def)
  have session: "signToken cfg e0 i
           = Some (Signed (Some i) (jwt_secret cfg) (Some (seconds t0 + ttl)))"
    using secret ttl issued by (simp add: signToken_def jwt_sign_def)
  have gate: "seconds (now e) < seconds t0 + 300
            \<and> extract_token req = Some (Signed (Some i) (jwt_secret cfg) (Some (seconds t0 + 300)))
            \<longrightarrow> protect cfg e req st = Inr (default_read u)"
    using secret stored by (simp add: protect_def findById_def)
  have same: "seconds (now e) < seconds t0 + ttl \<and> seconds (now e) < seconds t0 + 300 \<longrightarrow>
            verify2FA cfg e
              (req\<lparr>body_tempToken := Some (Signed (Some i) (jwt_secret cfg) (Some (seconds t0 + ttl)))\<rparr>) st
            = verify2FA cfg e
              (req\<lparr>body_tempToken := Some (Signed (Some i) (jwt_secret cfg) (Some (seconds t0 + 300)))\<rparr>) st"
    using secret by (simp add: verify2FA_def split: option.splits)
  have accepted: "seconds (now e) < seconds t0 + ttl \<and> twoFactorSecret u = Some s \<and> s \<noteq> []
            \<and> totp_verify e s (body_code req) = Some True \<longrightarrow>
            status (fst (verify2FA cfg e
              (req\<lparr>body_tempToken := Some (Signed (Some i) (jwt_secret cfg) (Some (seconds t0 + ttl)))\<rparr>)
              st)) = 200"
    using secret ttl stored
    by (simp add: verify2FA_def findById_select_twoFactorSecret_def falsy_def text_of_def
        signToken_def jwt_sign_def)
  show ?thesis using stepup session gate same accepted by blast
qed

theorem stepup_and_session_interchangeable_witness:
  "protect demo_cfg demo_env
     (no_request\<lparr>authorization := Some [Malformed ''Bearer'',
        Signed (Some ''u1'') ''s3cret'' (Some 305)], body_code := Some ''123456''\<rparr>)
     ann_state = Inr (default_read ann)
   \<and> status (fst (verify2FA demo_cfg demo_env
       (no_request\<lparr>authorization := Some [Malformed ''Bearer'',
          Signed (Some ''u1'') ''s3cret'' (Some 305)], body_code := Some ''123456'',
          body_tempToken := Some (Signed (Some ''u1'') ''s3cret'' (Some 7776005))\<rparr>)
       ann_state)) = 200"
  using stepup_and_session_interchangeable [where cfg = demo_cfg and ttl = 7776000
      and i = "''u1''" and st = ann_state and u = ann and ?e0.0 = demo_env and ?t0.0 = 5000
      and e = demo_env and s = "''JBSWY3DPEHPK3PXP''"
      and req = "no_request\<lparr>authorization := Some [Malformed ''Bearer'',
             Signed (Some ''u1'') ''s3cret'' (Some 305)], body_code := Some ''123456''\<rparr>"]
  by (simp add: demo_defs seconds_def extract_token_def startsWith_Bearer_def jwt_sign_def
      signToken_def verify2FA_def findById_select_twoFactorSecret_def falsy_def text_of_def)

subsection \<open>The two-factor invariant\<close>

lemma find_uid: "find (\<lambda>u. uid u = i) us = Some u \<Longrightarrow> uid u = i \<and> u \<in> set us"
  by (induction us) (auto split: if_splits)

lemma set_save:
  "x \<in> set (save i f us) \<Longrightarrow>
   x \<in> set us \<or> (\<exists>u. find (\<lambda>u. uid u = i) us = Some u \<and> x = f u)"
  by (induction us) (auto split: if_splits)

lemma map_save_twoFactorEnabled:
  "(\<And>u. twoFactorEnabled (f u) = twoFactorEnabled u) \<Longrightarrow>
   map twoFactorEnabled (save i f us) = map twoFactorEnabled us"
  by (induction us) auto

lemma invariant_save:
  assumes "twoFactor_invariant st"
    and "\<And>u. find (\<lambda>u. uid u = i) (users st) = Some u \<Longrightarrow>
           twoFactorEnabled (f u) \<longrightarrow> twoFactorSecret (f u) \<noteq> None"
  shows "twoFactor_invariant (st\<lparr>users := save i f (users st)\<rparr>)"
  using assms unfolding twoFactor_invariant_def
  by (auto dest!: set_save)

lemma signup_invariant:
  "twoFactor_invariant st \<Longrightarrow> twoFactor_invariant (snd (signup cfg e req st))"
  by (auto simp: signup_def twoFactor_invariant_def create_user_def Let_def
      split: option.splits)

lemma verifyEmail_invariant:
  assumes "twoFactor_invariant st"
  shows "twoFactor_invariant (snd (verifyEmail cfg e req st))"
proof -
  have "twoFactor_invariant (st\<lparr>users := save i (\<lambda>x. x\<lparr>isEmailVerified := True\<rparr>) (users st)\<rparr>)" for i
    using assms by (rule invariant_save) (use assms in \<open>auto simp: twoFactor_invariant_def dest: find_uid\<close>)
  then show ?thesis using assms
    by (simp add: verifyEmail_def split: option.splits)
qed

lemma login_unchanged: "snd (login cfg e req st) = st"
  by (simp add: login_def split: option.splits)

lemma verify2FA_unchanged: "snd (verify2FA cfg e req st) = st"
  by (simp add: verify2FA_def split: option.splits)

lemma setup2FA_invariant:
  assumes "twoFactor_invariant st"
  shows "twoFactor_invariant (snd (setup2FA e req st))"
proof -
  have "twoFactor_invariant (st\<lparr>users := save i (\<lambda>x. x\<lparr>twoFactorSecret := Some b\<rparr>) (users st)\<rparr>)" for i b
    using assms by (rule invariant_save) simp
  then show ?thesis using assms
    by (simp add: setup2FA_def split: option.splits prod.splits)
qed

lemma setup2FA_keeps_flag:
  "map twoFactorEnabled (users (snd (setup2FA e req st))) = map twoFactorEnabled (users st)"
  by (simp add: setup2FA_def map_save_twoFactorEnabled split: option.splits prod.splits)

lemma confirm2FA_invariant:
  assumes "twoFactor_invariant st"
  shows "twoFactor_invariant (snd (confirm2FA e req st))"
proof -
  have enabled: "twoFactor_invariant
      (st\<lparr>users := save (uid u) (\<lambda>x. x\<lparr>twoFactorEnabled := True\<rparr>) (users st)\<rparr>)"
    if found: "find (\<lambda>v. uid v = i) (users st) = Some u"
      and secret: "\<not> falsy (twoFactorSecret u)" for i u
  proof -
    from found have "uid u = i" by (rule find_uid [THEN conjunct1])
    with found have first: "find (\<lambda>v. uid v = uid u) (users st) = Some u" by simp
    show ?thesis
      using assms
    proof (rule invariant_save)
      fix w assume "find (\<lambda>v. uid v = uid u) (users st) = Some w"
      with first have "w = u" by simp
      with secret show "twoFactorEnabled (w\<lparr>twoFactorEnabled := True\<rparr>) \<longrightarrow>
          twoFactorSecret (w\<lparr>twoFactorEnabled := True\<rparr>) \<noteq> None"
        by (auto simp: falsy_def split: option.splits)
    qed
  qed
  show ?thesis
    using assms
    by (auto simp: confirm2FA_def findById_select_twoFactorSecret_def
        split: option.splits intro: enabled)
qed

lemma disable2FA_invariant:
  assumes "twoFactor_invariant st"
  shows "twoFactor_invariant (snd (disable2FA req st))"
proof -
  have "twoFactor_invariant (st\<lparr>users := save i
          (\<lambda>x. x\<lparr>twoFactorEnabled := False, twoFactorSecret := None\<rparr>) (users st)\<rparr>)" for i
    using assms by (rule invariant_save) simp
  then show ?thesis using assms
    by (simp add: disable2FA_def split: option.splits)
qed

text \<open>What the three two-factor handlers write to the store, and when.\<close>

lemma setup2FA_writes:
  assumes "req_user req = Some ru" and "find (\<lambda>v. uid v = uid ru) (users st) = Some u"
  shows "\<not> twoFactorEnabled u \<longrightarrow>
           snd (setup2FA e req st) =
             st\<lparr>users := save (uid ru)
                  (\<lambda>x. x\<lparr>twoFactorSecret :=
                           Some (fst (generateSecret e (''ExpenseTracker:'' @ email u)))\<rparr>)
                  (users st)\<rparr>
         \<and> find (\<lambda>v. uid v = uid ru) (users (snd (setup2FA e req st))) =
             Some (u\<lparr>twoFactorSecret :=
                        Some (fst (generateSecret e (''ExpenseTracker:'' @ email u)))\<rparr>)"
    and "twoFactorEnabled u \<longrightarrow> snd (setup2FA e req st) = st"
proof -
  have id: "uid u = uid ru"
    using assms(2) by (rule find_uid [THEN conjunct1])
  show "\<not> twoFactorEnabled u \<longrightarrow>
           snd (setup2FA e req st) =
             st\<lparr>users := save (uid ru)
                  (\<lambda>x. x\<lparr>twoFactorSecret :=
                           Some (fst (generateSecret e (''ExpenseTracker:'' @ email u)))\<rparr>)
                  (users st)\<rparr>
         \<and> find (\<lambda>v. uid v = uid ru) (users (snd (setup2FA e req st))) =
             Some (u\<lparr>twoFactorSecret :=
                        Some (fst (generateSecret e (''ExpenseTracker:'' @ email u)))\<rparr>)"
    using assms id
    by (simp add: setup2FA_def findById_def default_read_def find_save split: prod.splits)
  show "twoFactorEnabled u \<longrightarrow> snd (setup2FA e req st) = st"
    using assms by (simp add: setup2FA_def findById_def default_read_def)
qed

lemma disable2FA_writes:
  assumes "req_user req = Some ru" and "find (\<lambda>v. uid v = uid ru) (users st) = Some u"
  shows "twoFactorEnabled u \<longrightarrow>
           snd (disable2FA req st) =
             st\<lparr>users := save (uid ru)
                  (\<lambda>x. x\<lparr>twoFactorEnabled := False, twoFactorSecret := None\<rparr>) (users st)\<rparr>
         \<and> find (\<lambda>v. uid v = uid ru) (users (snd (disable2FA req st))) =
             Some (u\<lparr>twoFactorEnabled := False, twoFactorSecret := None\<rparr>)"
    and "\<not> twoFactorEnabled u \<longrightarrow> snd (disable2FA req st) = st"
proof -
  have id: "uid u = uid ru"
    using assms(2) by (rule find_uid [THEN conjunct1])
  show "twoFactorEnabled u \<longrightarrow>
           snd (disable2FA req st) =
             st\<lparr>users := save (uid ru)
                  (\<lambda>x. x\<lparr>twoFactorEnabled := False, twoFactorSecret := None\<rparr>) (users st)\<rparr>
         \<and> find (\<lambda>v. uid v = uid ru) (users (snd (disable2FA req st))) =
             Some (u\<lparr>twoFactorEnabled := False, twoFactorSecret := None\<rparr>)"
    using assms id by (simp add: disable2FA_def findById_def default_read_def find_save)
  show "\<not> twoFactorEnabled u \<longrightarrow> snd (disable2FA req st) = st"
    using assms by (simp add: disable2FA_def findById_def default_read_def)
qed

lemma confirm2FA_writes_only_with_secret:
  "snd (confirm2FA e req st) = st
   \<or> (\<exists>ru u s. req_user req = Some ru
         \<and> find (\<lambda>v. uid v = uid ru) (users st) = Some u
         \<and> twoFactorSecret u = Some s \<and> s \<noteq> []
         \<and> snd (confirm2FA e req st) =
             st\<lparr>users := save (uid ru) (\<lambda>x. x\<lparr>twoFactorEnabled := True\<rparr>) (users st)\<rparr>
         \<and> find (\<lambda>v. uid v = uid ru) (users (snd (confirm2FA e req st))) =
             Some (u\<lparr>twoFactorEnabled := True\<rparr>))"
proof (cases "snd (confirm2FA e req st) = st")
  case True
  then show ?thesis by simp
next
  case False
  then obtain ru where ru: "req_user req = Some ru"
    by (cases "req_user req") (auto simp: confirm2FA_def)
  from False ru obtain u where u: "find (\<lambda>v. uid v = uid ru) (users st) = Some u"
    by (cases "find (\<lambda>v. uid v = uid ru) (users st)")
       (auto simp: confirm2FA_def findById_select_twoFactorSecret_def)
  from False ru u obtain s where s: "twoFactorSecret u = Some s" "s \<noteq> []"
    by (cases "twoFactorSecret u")
       (auto simp: confirm2FA_def findById_select_twoFactorSecret_def falsy_def split: if_splits)
  have id: "uid u = uid ru"
    using u by (rule find_uid [THEN conjunct1])
  have written: "snd (confirm2FA e req st) =
             st\<lparr>users := save (uid ru) (\<lambda>x. x\<lparr>twoFactorEnabled := True\<rparr>) (users st)\<rparr>"
    using False ru u s id
    by (auto simp: confirm2FA_def findById_select_twoFactorSecret_def falsy_def
        split: if_splits option.splits)
  have "find (\<lambda>v. uid v = uid ru) (users (snd (confirm2FA e req st))) =
             Some (u\<lparr>twoFactorEnabled := True\<rparr>)"
    using u by (simp add: written find_save)
  with ru u s written show ?thesis by blast
qed

lemma setup2FA_writes_only:
  "snd (setup2FA e req st) = st
   \<or> (\<exists>ru u. req_user req = Some ru \<and> find (\<lambda>v. uid v = uid ru) (users st) = Some u
          \<and> \<not> twoFactorEnabled u)"
  by (auto simp: setup2FA_def findById_def default_read_def split: option.splits prod.splits)

lemma disable2FA_writes_only:
  "snd (disable2FA req st) = st
   \<or> (\<exists>ru u. req_user req = Some ru \<and> find (\<lambda>v. uid v = uid ru) (users st) = Some u
          \<and> twoFactorEnabled u)"
  by (auto simp: disable2FA_def findById_def default_read_def split: option.splits)

lemma confirm2FA_writes:
  assumes "enable2FASchema req = []" and "req_user req = Some ru"
    and "find (\<lambda>v. uid v = uid ru) (users st) = Some u"
    and "twoFactorSecret u = Some s" and "s \<noteq> []"
    and "totp_verify e s (body_code req) = Some True"
  shows "snd (confirm2FA e req st) =
           st\<lparr>users := save (uid ru) (\<lambda>x. x\<lparr>twoFactorEnabled := True\<rparr>) (users st)\<rparr>"
proof -
  have "uid u = uid ru"
    using assms(3) by (rule find_uid [THEN conjunct1])
  then show ?thesis
    using assms
    by (simp add: confirm2FA_def findById_select_twoFactorSecret_def falsy_def text_of_def)
qed

text \<open>
  C4. Every handler keeps the invariant that a stored user with \<^verbatim>\<open>twoFactorEnabled\<close> has
  a \<^verbatim>\<open>twoFactorSecret\<close>. \<^verbatim>\<open>setup2FA\<close> stores the generated secret on the user whose flag
  is off, changes no user's flag and writes in no other case. \<^verbatim>\<open>disable2FA\<close> clears flag
  and secret of the user whose flag is on in one save and writes in no other case.
  \<^verbatim>\<open>confirm2FA\<close> sets the flag when the body passes the schema, a secret is stored and
  the code is accepted, and whenever it writes at all the user has a stored, non-empty
  secret. \<^verbatim>\<open>signup\<close> adds a user with the flag off, and the other handlers do not touch
  either field. Each handler runs as one step.
\<close>

theorem twoFactor_invariant_preserved:
  assumes "twoFactor_invariant st"
  shows "twoFactor_invariant (snd (signup cfg e req st))
       \<and> twoFactor_invariant (snd (verifyEmail cfg e req st))
       \<and> twoFactor_invariant (snd (login cfg e req st))
       \<and> twoFactor_invariant (snd (setup2FA e req st))
       \<and> twoFactor_invariant (snd (verify2FA cfg e req st))
       \<and> twoFactor_invariant (snd (confirm2FA e req st))
       \<and> twoFactor_invariant (snd (disable2FA req st))
       \<and> map twoFactorEnabled (users (snd (setup2FA e req st))) = map twoFactorEnabled (users st)
       \<and> (req_user req = Some ru \<and> find (\<lambda>v. uid v = uid ru) (users st) = Some u
            \<and> \<not> twoFactorEnabled u \<longrightarrow>
            snd (setup2FA e req st) =
              st\<lparr>users := save (uid ru)
                   (\<lambda>x. x\<lparr>twoFactorSecret :=
                            Some (fst (generateSecret e (''ExpenseTracker:'' @ email u)))\<rparr>)
                   (users st)\<rparr>
            \<and> find (\<lambda>v. uid v = uid ru) (users (snd (setup2FA e req st))) =
                Some (u\<lparr>twoFactorSecret :=
                           Some (fst (generateSecret e (''ExpenseTracker:'' @ email u)))\<rparr>))
       \<and> (snd (setup2FA e req st) = st
            \<or> (\<exists>ru u. req_user req = Some ru
                  \<and> find (\<lambda>v. uid v = uid ru) (users st) = Some u \<and> \<not> twoFactorEnabled u))
       \<and> (req_user req = Some ru \<and> find (\<lambda>v. uid v = uid ru) (users st) = Some u
            \<and> twoFactorEnabled u \<longrightarrow>
            snd (disable2FA req st) =
              st\<lparr>users := save (uid ru)
                   (\<lambda>x. x\<lparr>twoFactorEnabled := False, twoFactorSecret := None\<rparr>) (users st)\<rparr>
            \<and> find (\<lambda>v. uid v = uid ru) (users (snd (disable2FA req st))) =
                Some (u\<lparr>twoFactorEnabled := False, twoFactorSecret := None\<rparr>))
       \<and> (snd (disable2FA req st) = st
            \<or> (\<exists>ru u. req_user req = Some ru
                  \<and> find (\<lambda>v. uid v = uid ru) (users st) = Some u \<and> twoFactorEnabled u))
       \<and> (enable2FASchema req = [] \<and> req_user req = Some ru
            \<and> find (\<lambda>v. uid v = uid ru) (users st) = Some u
            \<and> twoFactorSecret u = Some s \<and> s \<noteq> []
            \<and> totp_verify e s (body_code req) = Some True \<longrightarrow>
            snd (confirm2FA e req st) =
              st\<lparr>users := save (uid ru) (\<lambda>x. x\<lparr>twoFactorEnabled := True\<rparr>) (users st)\<rparr>)
       \<and> (snd (confirm2FA e req st) = st
            \<or> (\<exists>ru u s. req_user req = Some ru
                  \<and> find (\<lambda>v. uid v = uid ru) (users st) = Some u
                  \<and> twoFactorSecret u = Some s \<and> s \<noteq> []
                  \<and> snd (confirm2FA e req st) =
                      st\<lparr>users := save (uid ru) (\<lambda>x. x\<lparr>twoFactorEnabled := True\<rparr>) (users st)\<rparr>
                  \<and> find (\<lambda>v. uid v = uid ru) (users (snd (confirm2FA e req st))) =
                      Some (u\<lparr>twoFactorEnabled := True\<rparr>)))"
proof -
  have kept: "twoFactor_invariant (snd (signup cfg e req st))
       \<and> twoFactor_invariant (snd (verifyEmail cfg e req st))
       \<and> twoFactor_invariant (snd (login cfg e req st))
       \<and> twoFactor_invariant (snd (setup2FA e req st))
       \<and> twoFactor_invariant (snd (verify2FA cfg e req st))
       \<and> twoFactor_invariant (snd (confirm2FA e req st))
       \<and> twoFactor_invariant (snd (disable2FA req st))
       \<and> map twoFactorEnabled (users (snd (setup2FA e req st))) = map twoFactorEnabled (users st)"
    using assms
    by (simp add: signup_invariant verifyEmail_invariant login_unchanged setup2FA_invariant
        verify2FA_unchanged confirm2FA_invariant disable2FA_invariant setup2FA_keeps_flag)
  note stored = setup2FA_writes(1) [of req ru st u e] setup2FA_writes_only [of e req st]
  note cleared = disable2FA_writes(1) [of req ru st u] disable2FA_writes_only [of req st]
  note flagged = confirm2FA_writes [of req ru st u s e]
    confirm2FA_writes_only_with_secret [of e req st]
  show ?thesis
    apply (intro conjI impI)
    using kept apply simp_all[8]
    using stored(1) apply blast
    using stored(1) apply blast
    using stored(2) apply blast
    using cleared(1) apply blast
    using cleared(1) apply blast
    using cleared(2) apply blast
    using flagged(1) apply blast
    using flagged(2) apply blast
    done
qed

theorem twoFactor_invariant_preserved_witness:
  "twoFactor_invariant fresh_state
   \<and> snd (setup2FA demo_env confirm_request fresh_state) = pending_state
   \<and> twoFactor_invariant (snd (setup2FA demo_env confirm_request fresh_state))
   \<and> snd (confirm2FA demo_env confirm_request pending_state) = ann_state
   \<and> twoFactor_invariant (snd (confirm2FA demo_env confirm_request pending_state))
   \<and> snd (disable2FA confirm_request ann_state) = fresh_state
   \<and> twoFactor_invariant (snd (disable2FA confirm_request ann_state))"
  using twoFactor_invariant_preserved [where st = fresh_state and cfg = demo_cfg
      and e = demo_env and req = confirm_request and ru = "default_read pending"
      and u = "pending\<lparr>twoFactorSecret := None\<rparr>"]
    twoFactor_invariant_preserved [where st = pending_state and cfg = demo_cfg
      and e = demo_env and req = confirm_request and ru = "default_read pending"
      and u = pending and s = "''JBSWY3DPEHPK3PXP''"]
    twoFactor_invariant_preserved [where st = ann_state and cfg = demo_cfg
      and e = demo_env and req = confirm_request and ru = "default_read pending" and u = ann]
  by (simp add: twoFactor_invariant_def fresh_state_def pending_state_def pending_def
      confirm_request_def demo_defs setup2FA_def confirm2FA_def disable2FA_def
      enable2FASchema_def default_read_def findById_select_twoFactorSecret_def findById_def
      falsy_def text_of_def)

subsection \<open>Disabling and confirming two-factor authentication\<close>

text \<open>
  C9. For an authenticated user with two-factor enabled, \<^verbatim>\<open>disable2FA\<close> answers 200 and
  writes \<^verbatim>\<open>twoFactorEnabled = false\<close> and no secret in one save. In the store it leaves,
  \<^verbatim>\<open>verify2FA\<close> with any token for that user fails under every configuration, clock and
  code: 401 when the token does not verify, 400 \<^verbatim>\<open>Invalid token\<close> when it does; it sets
  no cookie and changes nothing.
\<close>

theorem disable2FA_then_verify2FA_fails:
  assumes user: "req_user req = Some ru"
    and stored: "find (\<lambda>u. uid u = uid ru) (users st) = Some u"
    and enabled: "twoFactorEnabled u"
  shows "disable2FA req st =
           (respond 200 [(''message'', JStr ''2FA disabled successfully'')],
            st\<lparr>users := save (uid ru)
                 (\<lambda>x. x\<lparr>twoFactorEnabled := False, twoFactorSecret := None\<rparr>) (users st)\<rparr>)
       \<and> find (\<lambda>u. uid u = uid ru) (users (snd (disable2FA req st)))
           = Some (u\<lparr>twoFactorEnabled := False, twoFactorSecret := None\<rparr>)
       \<and> (body_tempToken req' = Some (Signed (Some (uid ru)) k ex) \<longrightarrow>
            verify2FA cfg e req' (snd (disable2FA req st)) =
              (if jwt_verify (Signed (Some (uid ru)) k ex) (jwt_secret cfg) (now e) = None
               then invalid_or_expired_token
               else respond 400 [(''status'', JStr ''failed''), (''message'', JStr ''Invalid token'')],
               snd (disable2FA req st)))"
proof -
  have id: "uid u = uid ru"
    using stored by (rule find_uid [THEN conjunct1])
  have step: "disable2FA req st =
           (respond 200 [(''message'', JStr ''2FA disabled successfully'')],
            st\<lparr>users := save (uid ru)
                 (\<lambda>x. x\<lparr>twoFactorEnabled := False, twoFactorSecret := None\<rparr>) (users st)\<rparr>)"
    using user stored enabled id by (simp add: disable2FA_def findById_def default_read_def)
  have after: "find (\<lambda>u. uid u = uid ru) (users (snd (disable2FA req st)))
           = Some (u\<lparr>twoFactorEnabled := False, twoFactorSecret := None\<rparr>)"
    using stored by (simp add: step find_save)
  have later: "body_tempToken req' = Some (Signed (Some (uid ru)) k ex) \<longrightarrow>
            verify2FA cfg e req' (snd (disable2FA req st)) =
              (if jwt_verify (Signed (Some (uid ru)) k ex) (jwt_secret cfg) (now e) = None
               then invalid_or_expired_token
               else respond 400 [(''status'', JStr ''failed''), (''message'', JStr ''Invalid token'')],
               snd (disable2FA req st))"
    using after
    by (auto simp: verify2FA_def findById_select_twoFactorSecret_def falsy_def
        split: option.splits if_splits)
  show ?thesis using step after later by blast
qed

theorem disable2FA_then_verify2FA_fails_witness:
  "disable2FA confirm_request ann_state =
     (respond 200 [(''message'', JStr ''2FA disabled successfully'')],
      \<lparr>users = [ann\<lparr>twoFactorEnabled := False, twoFactorSecret := None\<rparr>], outbox = []\<rparr>)
   \<and> verify2FA demo_cfg demo_env
       (no_request\<lparr>body_tempToken := Some (Signed (Some ''u1'') ''s3cret'' (Some 305)),
                   body_code := Some ''123456''\<rparr>)
       (snd (disable2FA confirm_request ann_state))
     = (respond 400 [(''status'', JStr ''failed''), (''message'', JStr ''Invalid token'')],
        snd (disable2FA confirm_request ann_state))"
  using disable2FA_then_verify2FA_fails [where req = confirm_request
      and ru = "default_read pending" and st = ann_state and u = ann
      and req' = "no_request\<lparr>body_tempToken := Some (Signed (Some ''u1'') ''s3cret'' (Some 305)),
                   body_code := Some ''123456''\<rparr>"
      and k = "''s3cret''" and ex = "Some 305" and cfg = demo_cfg and e = demo_env]
  by (simp add: confirm_request_def pending_def default_read_def demo_defs seconds_def
      disable2FA_def findById_def verify2FA_def findById_select_twoFactorSecret_def falsy_def)

text \<open>
  C7, as stated, fails: Ann is authenticated, her secret is stored and the code is the
  one the TOTP check accepts, but the body holds \<^verbatim>\<open>code\<close> alone. The schema
  \<^verbatim>\<open>enable2FASchema\<close> also demands a string \<^verbatim>\<open>token\<close>, so the answer is 400
  \<^verbatim>\<open>Validation failed\<close> and two-factor stays off.
\<close>

theorem confirm2FA_code_only_body_rejected:
  "users pending_state = [pending] \<and> uid pending = ''u1''
   \<and> twoFactorSecret pending = Some ''JBSWY3DPEHPK3PXP''
   \<and> totp_verify demo_env ''JBSWY3DPEHPK3PXP'' (Some ''123456'') = Some True
   \<and> confirm2FA demo_env
        (no_request\<lparr>body_code := Some ''123456'', req_user := Some (default_read pending)\<rparr>)
        pending_state
      = (respond 400 [(''message'', JStr ''Validation failed''),
                      (''errors'', JIssues [''token''])], pending_state)"
  by (simp add: confirm2FA_def enable2FASchema_def pending_state_def pending_def demo_defs)

text \<open>
  C7, amended. For an authenticated request whose body has a string \<^verbatim>\<open>token\<close> and a
  \<^verbatim>\<open>code\<close> of six characters: with a stored secret and a code the TOTP check accepts,
  \<^verbatim>\<open>confirm2FA\<close> answers 200 and sets \<^verbatim>\<open>twoFactorEnabled\<close> on the stored user; without
  a stored secret it answers 404 \<^verbatim>\<open>User not found or 2FA not setup\<close>; with a code the
  check rejects it answers 401 \<^verbatim>\<open>invalid 2FA code\<close>, and in both failures the store is
  unchanged.
\<close>

theorem confirm2FA_with_token_field:
  assumes user: "req_user req = Some ru"
    and token: "body_token req = Some t"
    and code: "body_code req = Some c" "length c = 6"
  shows "(find (\<lambda>u. uid u = uid ru) (users st) = Some u \<and> twoFactorSecret u = Some s \<and> s \<noteq> []
            \<and> totp_verify e s (Some c) = Some True \<longrightarrow>
          confirm2FA e req st =
            (respond 200 [(''message'', JStr ''2FA Enabled successfully'')],
             st\<lparr>users := save (uid ru) (\<lambda>x. x\<lparr>twoFactorEnabled := True\<rparr>) (users st)\<rparr>)
          \<and> find (\<lambda>u. uid u = uid ru) (users (snd (confirm2FA e req st)))
              = Some (u\<lparr>twoFactorEnabled := True\<rparr>))
       \<and> (find (\<lambda>u. uid u = uid ru) (users st) = Some u \<and> falsy (twoFactorSecret u) \<longrightarrow>
          confirm2FA e req st =
            (respond 404 [(''messaage'', JStr ''User not found or 2FA not setup'')], st))
       \<and> (find (\<lambda>u. uid u = uid ru) (users st) = Some u \<and> twoFactorSecret u = Some s \<and> s \<noteq> []
            \<and> totp_verify e s (Some c) = Some False \<longrightarrow>
          confirm2FA e req st = (respond 401 [(''message'', JStr ''invalid 2FA code'')], st))"
proof -
  have schema: "enable2FASchema req = []"
    using token code by (simp add: enable2FASchema_def)
  have ok: "confirm2FA e req st =
            (respond 200 [(''message'', JStr ''2FA Enabled successfully'')],
             st\<lparr>users := save (uid ru) (\<lambda>x. x\<lparr>twoFactorEnabled := True\<rparr>) (users st)\<rparr>)
          \<and> find (\<lambda>u. uid u = uid ru) (users (snd (confirm2FA e req st)))
              = Some (u\<lparr>twoFactorEnabled := True\<rparr>)"
    if "find (\<lambda>u. uid u = uid ru) (users st) = Some u" "twoFactorSecret u = Some s" "s \<noteq> []"
      "totp_verify e s (Some c) = Some True"
  proof -
    have "uid u = uid ru" using that(1) by (rule find_uid [THEN conjunct1])
    then show ?thesis
      using that schema user code(1)
      by (simp add: confirm2FA_def findById_select_twoFactorSecret_def falsy_def text_of_def
          find_save)
  qed
  have notsetup: "confirm2FA e req st =
            (respond 404 [(''messaage'', JStr ''User not found or 2FA not setup'')], st)"
    if "find (\<lambda>u. uid u = uid ru) (users st) = Some u" "falsy (twoFactorSecret u)"
    using that schema user
    by (simp add: confirm2FA_def findById_select_twoFactorSecret_def)
  have wrong: "confirm2FA e req st = (respond 401 [(''message'', JStr ''invalid 2FA code'')], st)"
    if "find (\<lambda>u. uid u = uid ru) (users st) = Some u" "twoFactorSecret u = Some s" "s \<noteq> []"
      "totp_verify e s (Some c) = Some False"
    using that schema user code(1)
    by (simp add: confirm2FA_def findById_select_twoFactorSecret_def falsy_def text_of_def)
  show ?thesis using ok notsetup wrong by blast
qed

theorem confirm2FA_with_token_field_witness:
  "confirm2FA demo_env confirm_request pending_state =
     (respond 200 [(''message'', JStr ''2FA Enabled successfully'')], ann_state)
   \<and> confirm2FA demo_env (confirm_request\<lparr>body_code := Some ''654321''\<rparr>) pending_state =
       (respond 401 [(''message'', JStr ''invalid 2FA code'')], pending_state)
   \<and> confirm2FA demo_env confirm_request
        \<lparr>users = [pending\<lparr>twoFactorSecret := None\<rparr>], outbox = []\<rparr> =
       (respond 404 [(''messaage'', JStr ''User not found or 2FA not setup'')],
        \<lparr>users = [pending\<lparr>twoFactorSecret := None\<rparr>], outbox = []\<rparr>)"
  using confirm2FA_with_token_field [where req = confirm_request and ru = "default_read pending"
      and t = "Malformed ''x''" and c = "''123456''" and st = pending_state and u = pending
      and s = "''JBSWY3DPEHPK3PXP''" and e = demo_env]
    confirm2FA_with_token_field [where req = "confirm_request\<lparr>body_code := Some ''654321''\<rparr>"
      and ru = "default_read pending"
      and t = "Malformed ''x''" and c = "''654321''" and st = pending_state and u = pending
      and s = "''JBSWY3DPEHPK3PXP''" and e = demo_env]
    confirm2FA_with_token_field [where req = confirm_request and ru = "default_read pending"
      and t = "Malformed ''x''" and c = "''123456''"
      and st = "\<lparr>users = [pending\<lparr>twoFactorSecret := None\<rparr>], outbox = []\<rparr>"
      and u = "pending\<lparr>twoFactorSecret := None\<rparr>" and e = demo_env]
  by (simp add: confirm_request_def pending_state_def pending_def default_read_def demo_defs
      falsy_def)

end
